theory Spec2Isabelle
  imports Complex_Main
begin

section \<open>Numbers\<close>

text \<open>
  The amounts of \<^verbatim>\<open>App.tsx\<close> are JavaScript numbers. A number is modelled as an exact
  real, or the not-a-number value that \<^verbatim>\<open>parseFloat\<close> returns for a string with no digits
  and that every arithmetic operation passes on. Rounding to a 64-bit float and overflow are
  not modelled. Division by zero gives a non-finite value in JavaScript; the model has one such
  value, \<open>NaN\<close>.
\<close>

datatype number = NaN | Fin real

instantiation number :: comm_monoid_add
begin

definition zero_number :: number where
  "zero_number = Fin 0"

fun plus_number :: "number \<Rightarrow> number \<Rightarrow> number" where
  "plus_number (Fin a) (Fin b) = Fin (a + b)"
| "plus_number _ _ = NaN"

instance
proof (standard, goal_cases)
  case (1 x y z)
  show ?case by (cases x; cases y; cases z; simp)
next
  case (2 x y)
  show ?case by (cases x; cases y; simp)
next
  case (3 x)
  show ?case by (cases x; simp add: zero_number_def)
qed

end

instantiation number :: comm_monoid_mult
begin

definition one_number :: number where
  "one_number = Fin 1"

fun times_number :: "number \<Rightarrow> number \<Rightarrow> number" where
  "times_number (Fin a) (Fin b) = Fin (a * b)"
| "times_number _ _ = NaN"

instance
proof (standard, goal_cases)
  case (1 x y z)
  show ?case by (cases x; cases y; cases z; simp)
next
  case (2 x y)
  show ?case by (cases x; cases y; simp)
next
  case (3 x)
  show ?case by (cases x; simp add: one_number_def)
qed

end

instantiation number :: inverse
begin

fun divide_number :: "number \<Rightarrow> number \<Rightarrow> number" where
  "divide_number (Fin a) (Fin b) = (if b = 0 then NaN else Fin (a / b))"
| "divide_number _ _ = NaN"

fun inverse_number :: "number \<Rightarrow> number" where
  "inverse_number (Fin a) = (if a = 0 then NaN else Fin (1 / a))"
| "inverse_number NaN = NaN"

instance ..

end

text \<open>\<^verbatim>\<open>x < 0\<close> on a number: false for \<open>NaN\<close>.\<close>

fun negative :: "number \<Rightarrow> bool" where
  "negative (Fin a) = (a < 0)"
| "negative NaN = False"

section \<open>Strings\<close>

text \<open>
  A string is a list of 8-bit characters: the model covers the JavaScript strings whose code
  units are below 256. \<^verbatim>\<open>\d\<close> matches the ten ASCII digits; \<^verbatim>\<open>trim\<close> strips white space and
  line terminators, of which tab, line feed, vertical tab, form feed, carriage return, space
  and no-break space lie in that range.
\<close>

definition is_digit :: "char \<Rightarrow> bool" where
  "is_digit c = (48 \<le> (of_char c :: nat) \<and> (of_char c :: nat) \<le> 57)"

definition is_space :: "char \<Rightarrow> bool" where
  "is_space c = ((of_char c :: nat) \<in> {9, 10, 11, 12, 13, 32, 160})"

definition trim :: "string \<Rightarrow> string" where
  "trim s = rev (dropWhile is_space (rev (dropWhile is_space s)))"

definition digit_val :: "char \<Rightarrow> real" where
  "digit_val c = real ((of_char c :: nat) - 48)"

definition digits_val :: "string \<Rightarrow> real" where
  "digits_val ds = foldl (\<lambda>acc c. 10 * acc + digit_val c) 0 ds"

text \<open>
  \<^verbatim>\<open>parseFloat\<close> on an unsigned decimal literal without exponent: the longest prefix of the
  form digits, optional point, digits is read, and a prefix with no digit at all gives \<open>NaN\<close>.
  The handlers below call it only on strings that passed \<^verbatim>\<open>/^\d*\.?\d*$/\<close>, so a sign, an
  exponent, leading white space or \<^verbatim>\<open>Infinity\<close> never reach it.
\<close>

definition parseFloat :: "string \<Rightarrow> number" where
  "parseFloat s =
     (let ip = takeWhile is_digit s;
          rest = dropWhile is_digit s;
          fp = (case rest of [] \<Rightarrow> [] | c # r \<Rightarrow> if c = CHR ''.'' then takeWhile is_digit r else [])
      in if ip = [] \<and> fp = [] then NaN
         else Fin (digits_val ip + digits_val fp / 10 ^ length fp))"

text \<open>\<^verbatim>\<open>/^\d*\.?\d*$/.test(val)\<close>: digits, at most one point, digits, and nothing else.\<close>

definition numeric_pattern :: "string \<Rightarrow> bool" where
  "numeric_pattern val =
     (let rest = dropWhile is_digit val;
          rest' = (case rest of [] \<Rightarrow> [] | c # r \<Rightarrow> if c = CHR ''.'' then r else rest)
      in list_all is_digit rest')"

section \<open>Data model and component state\<close>

record Item =
  item_id :: string
  quantity :: number
  item_name :: string
  price :: number
  assignedTo :: string

record Person =
  person_id :: string
  person_name :: string

record Transaction =
  tx_from :: string
  fromAddress :: "string option"
  tx_to :: string
  toAddress :: "string option"
  amount :: number
  status :: string
  result :: "string option"
  error :: "string option"

text \<open>The \<^verbatim>\<open>useState\<close> cells of the component \<^verbatim>\<open>App\<close>, in the order they are declared.\<close>

record state =
  items :: "Item list"
  people :: "Person list"
  paidBy :: string
  taxPercent :: string
  tipPercent :: string
  newPersonName :: string
  isLoading :: bool
  errorMessage :: string
  isProcessingPayment :: bool
  transactions :: "Transaction list"
  showTransactions :: bool

definition initial_state :: state where
  "initial_state =
     \<lparr>items = [], people = [], paidBy = [], taxPercent = ''5'', tipPercent = ''20'',
      newPersonName = [], isLoading = False, errorMessage = [], isProcessingPayment = False,
      transactions = [], showTransactions = False\<rparr>"

section \<open>Derived amounts\<close>

text \<open>\<^verbatim>\<open>parseFloat(taxPercent || '0')\<close>: the empty string is falsy.\<close>

definition percent :: "string \<Rightarrow> number" where
  "percent s = parseFloat (if s = [] then ''0'' else s)"

definition subtotal :: "state \<Rightarrow> number" where
  "subtotal st = foldl (\<lambda>sum item. sum + price item) (Fin 0) (items st)"

definition taxAmount :: "state \<Rightarrow> number" where
  "taxAmount st = subtotal st * (percent (taxPercent st) / Fin 100)"

definition tipAmount :: "state \<Rightarrow> number" where
  "tipAmount st = (subtotal st + taxAmount st) * (percent (tipPercent st) / Fin 100)"

definition total :: "state \<Rightarrow> number" where
  "total st = subtotal st + taxAmount st + tipAmount st"

section \<open>Allocation\<close>

text \<open>
  The object \<^verbatim>\<open>owedMap\<close> of \<^verbatim>\<open>calculateOwed\<close> is a plain object \<^verbatim>\<open>{}\<close>, declared
  \<^verbatim>\<open>{ [key: string]: number }\<close> and used as a dictionary from names to numbers. The model is the
  finite map of its own properties; its prototype is \<^verbatim>\<open>Object.prototype\<close>, whose members are
  the names below.

  Assigning a number to the key \<^verbatim>\<open>__proto__\<close> reaches the setter inherited from the
  prototype, which ignores a value that is neither an object nor null: no own property is
  made. Assigning to any other key makes or overwrites an own property.

  Reading a key that is no own property gives the inherited member (a function, or the
  prototype itself) for the names below, and \<^verbatim>\<open>undefined\<close> for every other key.
\<close>

definition object_prototype_members :: "string list" where
  "object_prototype_members =
     [''constructor'', ''__defineGetter__'', ''__defineSetter__'', ''hasOwnProperty'',
      ''__lookupGetter__'', ''__lookupSetter__'', ''isPrototypeOf'', ''propertyIsEnumerable'',
      ''toString'', ''valueOf'', ''__proto__'', ''toLocaleString'']"

definition set_property :: "(string \<rightharpoonup> number) \<Rightarrow> string \<Rightarrow> number \<Rightarrow> (string \<rightharpoonup> number)" where
  "set_property obj key v = (if key = ''__proto__'' then obj else obj(key \<mapsto> v))"

datatype property = Own number | Inherited | Undefined

definition get_property :: "(string \<rightharpoonup> number) \<Rightarrow> string \<Rightarrow> property" where
  "get_property obj key =
     (case obj key of
        Some v \<Rightarrow> Own v
      | None \<Rightarrow> if key \<in> set object_prototype_members then Inherited else Undefined)"

text \<open>
  \<^verbatim>\<open>calculateOwed\<close>: \<^verbatim>\<open>forEach\<close> visits the people in list order, and a later assignment to
  the same name overwrites the earlier one.
\<close>

definition personItems :: "state \<Rightarrow> Person \<Rightarrow> Item list" where
  "personItems st person = filter (\<lambda>item. assignedTo item = person_name person) (items st)"

definition personSubtotal :: "state \<Rightarrow> Person \<Rightarrow> number" where
  "personSubtotal st person = foldl (\<lambda>sum item. sum + price item) (Fin 0) (personItems st person)"

definition personTaxTipShare :: "state \<Rightarrow> Person \<Rightarrow> number" where
  "personTaxTipShare st person =
     (personSubtotal st person / subtotal st) * (taxAmount st + tipAmount st)"

definition calculateOwed :: "state \<Rightarrow> (string \<rightharpoonup> number)" where
  "calculateOwed st =
     (if subtotal st = Fin 0 then Map.empty
      else foldl (\<lambda>owedMap person.
                    set_property owedMap (person_name person)
                      (personSubtotal st person + personTaxTipShare st person))
             Map.empty (people st))"

text \<open>
  The sum of \<^verbatim>\<open>Object.values\<close> of the map (the own properties), and agreement of two numbers
  within 1e-6 relative.
\<close>

definition sum_values :: "(string \<rightharpoonup> number) \<Rightarrow> number" where
  "sum_values m = (\<Sum>k \<in> dom m. the (m k))"

fun within_tolerance :: "number \<Rightarrow> number \<Rightarrow> bool" where
  "within_tolerance (Fin x) (Fin y) = (\<bar>x - y\<bar> \<le> \<bar>y\<bar> / 1000000)"
| "within_tolerance _ _ = False"

section \<open>Event handlers\<close>

definition setNewPersonName :: "string \<Rightarrow> state \<Rightarrow> state" where
  "setNewPersonName v st = st\<lparr>newPersonName := v\<rparr>"

text \<open>
  \<^verbatim>\<open>handleAddPerson\<close>; \<open>now\<close> is the string \<^verbatim>\<open>Date.now().toString()\<close>. A non-empty string is
  truthy.
\<close>

definition handleAddPerson :: "string \<Rightarrow> state \<Rightarrow> state" where
  "handleAddPerson now st =
     (if trim (newPersonName st) \<noteq> []
      then st\<lparr>people := people st @ [\<lparr>person_id = now, person_name = trim (newPersonName st)\<rparr>],
              newPersonName := []\<rparr>
      else st)"

text \<open>Typing a name into the input and pressing Add.\<close>

definition add :: "string \<Rightarrow> string \<Rightarrow> state \<Rightarrow> state" where
  "add now nm st = handleAddPerson now (setNewPersonName nm st)"

definition handleRemovePerson :: "string \<Rightarrow> state \<Rightarrow> state" where
  "handleRemovePerson personId st =
     (case find (\<lambda>p. person_id p = personId) (people st) of
        None \<Rightarrow> st
      | Some personToRemove \<Rightarrow>
          st\<lparr>items := map (\<lambda>item. if assignedTo item = person_name personToRemove
                                   then item\<lparr>assignedTo := []\<rparr> else item) (items st),
             people := filter (\<lambda>p. person_id p \<noteq> personId) (people st),
             paidBy := (if paidBy st = person_name personToRemove then [] else paidBy st)\<rparr>)"

text \<open>The \<^verbatim>\<open>onChange\<close> handler of the price field of \<open>item\<close>, on the input \<open>val\<close>.\<close>

definition price_onChange :: "Item \<Rightarrow> string \<Rightarrow> state \<Rightarrow> state" where
  "price_onChange item val st =
     (if val = [] \<or> numeric_pattern val
      then (let newPrice = (if val = [] then Fin 0 else parseFloat val)
            in st\<lparr>items := map (\<lambda>i. if item_id i = item_id item then i\<lparr>price := newPrice\<rparr> else i)
                                (items st)\<rparr>)
      else st)"

section \<open>Payment summary\<close>

record PaymentInstruction =
  instr_from :: string
  instr_to :: string
  instr_amount :: number

datatype exception = TypeError

text \<open>
  The amount shown in a row, \<^verbatim>\<open>owedAmounts[person.name]?.toFixed(2) || '0.00'\<close>. An own entry
  is a number, formatted by \<^verbatim>\<open>toFixed\<close> (the row keeps the number). With no entry and a name
  that is no member of the prototype the lookup is \<^verbatim>\<open>undefined\<close>, and \<^verbatim>\<open>'0.00'\<close> is shown. With
  no entry and the name of a member of the prototype the lookup is that member, which has
  no \<^verbatim>\<open>toFixed\<close>: the call throws a \<^verbatim>\<open>TypeError\<close>.
\<close>

definition summary_amount :: "state \<Rightarrow> Person \<Rightarrow> exception + number" where
  "summary_amount st person =
     (case get_property (calculateOwed st) (person_name person) of
        Own v \<Rightarrow> Inr v
      | Inherited \<Rightarrow> Inl TypeError
      | Undefined \<Rightarrow> Inr (Fin 0))"

text \<open>\<^verbatim>\<open>map\<close> with a callback that may throw: the first exception ends it.\<close>

fun render_rows :: "('a \<Rightarrow> exception + 'b) \<Rightarrow> 'a list \<Rightarrow> exception + 'b list" where
  "render_rows f [] = Inr []"
| "render_rows f (x # xs) =
     (case f x of
        Inl e \<Rightarrow> Inl e
      | Inr y \<Rightarrow> (case render_rows f xs of Inl e \<Rightarrow> Inl e | Inr ys \<Rightarrow> Inr (y # ys)))"

text \<open>
  The rows \<^verbatim>\<open>{person.name} pays {paidBy}\<close> of the payment summary, rendered when there are
  items, a payer and people, for the people whose name is not the payer's.
\<close>

definition paymentSummary :: "state \<Rightarrow> exception + PaymentInstruction list" where
  "paymentSummary st =
     (if items st \<noteq> [] \<and> paidBy st \<noteq> [] \<and> length (people st) > 0
      then render_rows
             (\<lambda>person. case summary_amount st person of
                          Inl e \<Rightarrow> Inl e
                        | Inr v \<Rightarrow> Inr \<lparr>instr_from = person_name person, instr_to = paidBy st,
                                        instr_amount = v\<rparr>)
             (filter (\<lambda>person. person_name person \<noteq> paidBy st) (people st))
      else Inr [])"

section \<open>Settlement and negotiation\<close>

datatype execution = Executed "string option" | NotExecuted string

datatype error = ParseError | ValidationError | UnavailableError

text \<open>
  Modelled from the spec: the settlement orchestrator \<^verbatim>\<open>settle\<close> of the backend, which is not
  among the sources. Each instruction is handed to the external payment executor, whose
  answer (a failure is data) becomes one transaction result; the instructions are taken in
  order and none is skipped. The executor acts on an outside world \<open>w\<close>, threaded through
  the calls; \<open>addr\<close> resolves a participant to a payment address.
\<close>

definition report :: "(string \<Rightarrow> string option) \<Rightarrow> PaymentInstruction \<Rightarrow> execution \<Rightarrow> Transaction" where
  "report addr i outcome =
     (case outcome of
        Executed r \<Rightarrow>
          \<lparr>tx_from = instr_from i, fromAddress = addr (instr_from i),
           tx_to = instr_to i, toAddress = addr (instr_to i),
           amount = instr_amount i, status = ''success'', result = r, error = None\<rparr>
      | NotExecuted e \<Rightarrow>
          \<lparr>tx_from = instr_from i, fromAddress = addr (instr_from i),
           tx_to = instr_to i, toAddress = addr (instr_to i),
           amount = instr_amount i, status = ''failed'', result = None, error = Some e\<rparr>)"

text \<open>
  Modelled from the spec: \<^verbatim>\<open>settle(instructions)\<close>, one executor call and one result per
  instruction, in the order of the instructions; a failed call does not end the run.
\<close>

fun settle :: "('w \<Rightarrow> PaymentInstruction \<Rightarrow> execution \<times> 'w) \<Rightarrow> (string \<Rightarrow> string option) \<Rightarrow>
    'w \<Rightarrow> PaymentInstruction list \<Rightarrow> Transaction list \<times> 'w" where
  "settle exec addr w [] = ([], w)"
| "settle exec addr w (i # instrs) =
     (case exec w i of (outcome, w') \<Rightarrow>
        (case settle exec addr w' instrs of (rs, w'') \<Rightarrow> (report addr i outcome # rs, w'')))"

text \<open>
  Modelled from the spec: the validation of the negotiation variant's parsed final amounts,
  done by the backend, which is not among the sources. The two amounts must be non-negative
  numbers whose sum is the total within \<open>tolerance\<close>; otherwise the result is a
  \<open>ValidationError\<close>, and valid amounts are returned as they were parsed.
\<close>

fun validate_final_amounts :: "real \<Rightarrow> number \<Rightarrow> number \<Rightarrow> number \<Rightarrow> error + number \<times> number" where
  "validate_final_amounts tolerance (Fin t) (Fin a) (Fin b) =
     (if 0 \<le> a \<and> 0 \<le> b \<and> \<bar>a + b - t\<bar> \<le> tolerance then Inr (Fin a, Fin b)
      else Inl ValidationError)"
| "validate_final_amounts tolerance _ _ _ = Inl ValidationError"

text \<open>
  Modelled from the spec: the operation \<^verbatim>\<open>negotiate\<close> of the backend, which is not among the
  sources. The reasoning collaborator is asked once, for a transcript of turns (person,
  message) and the two final amounts; the amounts are validated against the bill total, and
  an error of the validation is the result of the operation.
\<close>

definition negotiate :: "real \<Rightarrow> ('c \<Rightarrow> (nat \<times> string) list \<times> number \<times> number) \<Rightarrow> 'c \<Rightarrow> number \<Rightarrow>
    error + (nat \<times> string) list \<times> (number \<times> number) \<times> number" where
  "negotiate tolerance collaborator ctx bill_total =
     (case collaborator ctx of (transcript, person1, person2) \<Rightarrow>
        (case validate_final_amounts tolerance bill_total person1 person2 of
           Inl e \<Rightarrow> Inl e
         | Inr finalAmounts \<Rightarrow> Inr (transcript, finalAmounts, bill_total)))"

section \<open>Example bills\<close>

text \<open>
  The bill of the end-to-end example (coffee 4.00 and muffin 3.00 for Alice, tax 10, tip 20,
  Bob paid), and variants of it: the muffin for Bob, the muffin unassigned beside a tea for
  Bob, and a bill whose only item is free.
\<close>

definition coffee :: Item where
  "coffee = \<lparr>item_id = ''1'', quantity = Fin 1, item_name = ''Coffee'', price = Fin 4,
             assignedTo = ''Alice''\<rparr>"

definition muffin :: Item where
  "muffin = \<lparr>item_id = ''2'', quantity = Fin 1, item_name = ''Muffin'', price = Fin 3,
             assignedTo = ''Alice''\<rparr>"

definition tea :: Item where
  "tea = \<lparr>item_id = ''3'', quantity = Fin 2, item_name = ''Tea'', price = Fin 5,
          assignedTo = ''Bob''\<rparr>"

definition alice :: Person where
  "alice = \<lparr>person_id = ''100'', person_name = ''Alice''\<rparr>"

definition bob :: Person where
  "bob = \<lparr>person_id = ''200'', person_name = ''Bob''\<rparr>"


definition example_bill :: state where
  "example_bill = initial_state
     \<lparr>items := [coffee, muffin], people := [alice, bob],
      paidBy := ''Bob'', taxPercent := ''10'', tipPercent := ''20''\<rparr>"

definition split_bill :: state where
  "split_bill = example_bill\<lparr>items := [coffee, muffin\<lparr>assignedTo := ''Bob''\<rparr>]\<rparr>"

definition unclaimed_bill :: state where
  "unclaimed_bill = example_bill\<lparr>items := [coffee, muffin\<lparr>assignedTo := []\<rparr>, tea]\<rparr>"

definition free_bill :: state where
  "free_bill = example_bill\<lparr>items := [coffee\<lparr>price := Fin 0\<rparr>]\<rparr>"


text \<open>A bill with a participant named \<^verbatim>\<open>__proto__\<close>, who has the scone.\<close>

definition scone :: Item where
  "scone = \<lparr>item_id = ''4'', quantity = Fin 1, item_name = ''Scone'', price = Fin 4,
            assignedTo = ''__proto__''\<rparr>"

definition proto :: Person where
  "proto = \<lparr>person_id = ''400'', person_name = ''__proto__''\<rparr>"

definition proto_bill :: state where
  "proto_bill = initial_state
     \<lparr>items := [coffee, scone], people := [alice, proto],
      paidBy := ''Alice'', taxPercent := ''25'', tipPercent := ''0''\<rparr>"

lemmas proto_defs = scone_def proto_def proto_bill_def

text \<open>The two instructions of the settlement example.\<close>

definition pay_a :: PaymentInstruction where
  "pay_a = \<lparr>instr_from = ''A'', instr_to = ''Payer'', instr_amount = Fin 5\<rparr>"

definition pay_b :: PaymentInstruction where
  "pay_b = \<lparr>instr_from = ''B'', instr_to = ''Payer'', instr_amount = Fin (15 / 2)\<rparr>"

text \<open>An executor that refuses every payment from A, and keeps the list of what it was asked.\<close>

definition refuse_a :: "PaymentInstruction list \<Rightarrow> PaymentInstruction \<Rightarrow> execution \<times> PaymentInstruction list" where
  "refuse_a w i =
     (if instr_from i = ''A'' then NotExecuted ''insufficient funds'' else Executed None, w @ [i])"

lemmas eval_defs =
  coffee_def muffin_def alice_def bob_def example_bill_def initial_state_def
  subtotal_def taxAmount_def tipAmount_def total_def
  percent_def parseFloat_def is_digit_def digits_val_def digit_val_def calculateOwed_def
  set_property_def personSubtotal_def personItems_def personTaxTipShare_def zero_number_def

section \<open>Facts about numbers and sums\<close>

lemma foldl_plus_number:
  "foldl (\<lambda>sum item. sum + f item) (a :: number) xs = a + sum_list (map f xs)"
  by (induction xs arbitrary: a) (simp_all add: add.assoc)

lemma reduce_sum_list:
  "foldl (\<lambda>sum item. sum + f item) (Fin 0) xs = sum_list (map f xs)"
  using foldl_plus_number [of f "Fin 0" xs] by (simp flip: zero_number_def)

lemma times_divide_number: "a * (b / c) = a * b / (c :: number)"
  by (cases a; cases b; cases c) simp_all

lemma distrib_number: "(x + y) * z = x * z + y * (z :: number)"
  by (cases x; cases y; cases z; simp add: algebra_simps)

lemma distrib_left_number: "z * (x + y) = z * x + z * (y :: number)"
  by (cases x; cases y; cases z; simp add: algebra_simps)

lemma add_divide_number: "(a + b) / c = a / c + b / (c :: number)"
  by (cases a; cases b; cases c) (simp_all add: add_divide_distrib)

lemma subtotal_sum_list: "subtotal st = sum_list (map price (items st))"
  by (simp add: subtotal_def reduce_sum_list)

section \<open>Derived quantities of a bill\<close>

text \<open>
  C3. The subtotal is the sum of the item prices, the tax is the subtotal times the tax
  percentage over 100, the tip is (subtotal + tax) times the tip percentage over 100, and the
  total is the sum of the three. The tip is taken on subtotal plus tax: it is the tip on the
  subtotal plus the tip on the tax.
\<close>

theorem derived_quantities:
  "subtotal st = sum_list (map price (items st)) \<and>
   taxAmount st = subtotal st * percent (taxPercent st) / Fin 100 \<and>
   tipAmount st = (subtotal st + taxAmount st) * percent (tipPercent st) / Fin 100 \<and>
   total st = subtotal st + taxAmount st + tipAmount st \<and>
   tipAmount st = subtotal st * percent (tipPercent st) / Fin 100
                  + taxAmount st * percent (tipPercent st) / Fin 100"
  unfolding subtotal_def taxAmount_def tipAmount_def total_def reduce_sum_list
  by (simp add: times_divide_number distrib_number add_divide_number)

theorem derived_quantities_witness:
  "subtotal example_bill = Fin 7 \<and>
   taxAmount example_bill = Fin (7 / 10) \<and>
   tipAmount example_bill = Fin (77 / 50) \<and>
   total example_bill = Fin (231 / 25)"
  using derived_quantities [of example_bill]
  by (simp add: eval_defs)

section \<open>The owed map\<close>

lemma find_SomeD: "find P xs = Some x \<Longrightarrow> P x \<and> x \<in> set xs"
  by (induction xs) (auto split: if_splits)

lemma foldl_set_property_lookup:
  "foldl (\<lambda>m p. set_property m (k p) (v p)) m0 ps n =
     (if n = ''__proto__'' then m0 n
      else case find (\<lambda>p. k p = n) (rev ps) of Some p \<Rightarrow> Some (v p) | None \<Rightarrow> m0 n)"
  by (induction ps arbitrary: n rule: rev_induct) (simp_all add: set_property_def)

lemma personSubtotal_sum_list:
  "personSubtotal st p = sum_list (map price (filter (\<lambda>item. assignedTo item = person_name p) (items st)))"
  by (simp add: personSubtotal_def personItems_def reduce_sum_list)

lemma personSubtotal_cong:
  "person_name p = person_name q \<Longrightarrow> personSubtotal st p = personSubtotal st q"
  by (simp add: personSubtotal_sum_list)

lemma personTaxTipShare_cong:
  "person_name p = person_name q \<Longrightarrow> personTaxTipShare st p = personTaxTipShare st q"
  by (simp add: personTaxTipShare_def personSubtotal_sum_list)

lemma calculateOwed_proto: "calculateOwed st ''__proto__'' = None"
  by (simp add: calculateOwed_def foldl_set_property_lookup)

lemma calculateOwed_entry:
  assumes "subtotal st \<noteq> Fin 0" and "p \<in> set (people st)" and "person_name p \<noteq> ''__proto__''"
  shows "calculateOwed st (person_name p) = Some (personSubtotal st p + personTaxTipShare st p)"
proof -
  from assms(2) have "p \<in> set (rev (people st))" by simp
  then obtain q where q: "find (\<lambda>q. person_name q = person_name p) (rev (people st)) = Some q"
    by (cases "find (\<lambda>q. person_name q = person_name p) (rev (people st))") (auto simp: find_None_iff)
  then have "person_name q = person_name p"
    by (auto simp: find_Some_iff)
  then have "personSubtotal st q + personTaxTipShare st q = personSubtotal st p + personTaxTipShare st p"
    using personSubtotal_cong [of q p st] personTaxTipShare_cong [of q p st] by simp
  with q assms(1,3) show ?thesis
    by (simp add: calculateOwed_def foldl_set_property_lookup)
qed

lemma calculateOwed_SomeD:
  assumes "calculateOwed st (person_name p) = Some v" and "p \<in> set (people st)"
  shows "v = personSubtotal st p + personTaxTipShare st p"
proof -
  from assms(1) have "subtotal st \<noteq> Fin 0"
    by (auto simp: calculateOwed_def split: if_splits)
  moreover from assms(1) have "person_name p \<noteq> ''__proto__''"
    using calculateOwed_proto [of st] by auto
  ultimately show ?thesis
    using calculateOwed_entry [of st p] assms by simp
qed

lemma calculateOwed_dom:
  assumes "subtotal st \<noteq> Fin 0"
  shows "dom (calculateOwed st) = person_name ` set (people st) - {''__proto__''}"
proof -
  have "(calculateOwed st n \<noteq> None) = (n \<in> person_name ` set (people st) - {''__proto__''})" for n
    using assms unfolding calculateOwed_def foldl_set_property_lookup
    by (auto simp: find_None_iff dest: find_SomeD split: option.splits)
  then show ?thesis by (auto simp: dom_def)
qed

text \<open>
  For the participants not named \<^verbatim>\<open>__proto__\<close> the owed map is as intended: when the
  subtotal is not 0 each of them has the entry given by the formula, and the map has no other
  key.
\<close>

lemma calculateOwed_other_names:
  "(subtotal st = Fin 0 \<longrightarrow> calculateOwed st = Map.empty) \<and>
   (subtotal st \<noteq> Fin 0 \<longrightarrow>
      dom (calculateOwed st) = person_name ` set (people st) - {''__proto__''} \<and>
      (\<forall>p \<in> set (people st). person_name p \<noteq> ''__proto__'' \<longrightarrow>
         calculateOwed st (person_name p) =
           Some (personSubtotal st p + (personSubtotal st p / subtotal st) * (taxAmount st + tipAmount st))))"
  using calculateOwed_entry [of st] calculateOwed_dom [of st]
  by (auto simp: calculateOwed_def personTaxTipShare_def)

lemma sum_partition:
  fixes f :: "'a \<Rightarrow> 'b::comm_monoid_add"
  assumes "finite A" and "\<forall>x\<in>set xs. g x \<in> A"
  shows "(\<Sum>n\<in>A. sum_list (map f (filter (\<lambda>x. g x = n) xs))) = sum_list (map f xs)"
  using assms(2)
proof (induction xs)
  case Nil
  then show ?case by simp
next
  case (Cons x xs)
  have "(\<Sum>n\<in>A. sum_list (map f (filter (\<lambda>y. g y = n) (x # xs))))
      = (\<Sum>n\<in>A. (if g x = n then f x else 0) + sum_list (map f (filter (\<lambda>y. g y = n) xs)))"
    by (rule sum.cong) simp_all
  also have "\<dots> = (\<Sum>n\<in>A. if g x = n then f x else 0) + (\<Sum>n\<in>A. sum_list (map f (filter (\<lambda>y. g y = n) xs)))"
    by (rule sum.distrib)
  also have "(\<Sum>n\<in>A. if g x = n then f x else 0) = f x"
    using assms(1) Cons.prems by (simp add: sum.delta')
  finally show ?case using Cons by simp
qed

lemma sum_scale_number:
  assumes "finite A" and "s \<noteq> 0"
  shows "(\<Sum>n\<in>A. f n / Fin s * Fin t) = (\<Sum>n\<in>A. f n) / Fin s * Fin t"
  using assms(1)
proof (induction A rule: finite_induct)
  case empty
  from assms(2) show ?case by (simp add: zero_number_def)
next
  case (insert a A)
  then show ?case by (simp add: add_divide_number distrib_number)
qed

lemma sum_list_Fin:
  "\<forall>x\<in>set xs. f x \<noteq> NaN \<Longrightarrow> \<exists>r. sum_list (map f xs) = Fin r"
proof (induction xs)
  case Nil
  then show ?case by (simp add: zero_number_def)
next
  case (Cons x xs)
  then obtain r where "sum_list (map f xs) = Fin r" by auto
  moreover from Cons.prems obtain a where "f x = Fin a" by (cases "f x") auto
  ultimately show ?case by simp
qed

lemma calculateOwed_by_name:
  assumes "subtotal st \<noteq> Fin 0" and "n \<in> person_name ` set (people st)" and "n \<noteq> ''__proto__''"
  shows "calculateOwed st n =
     Some (sum_list (map price (filter (\<lambda>item. assignedTo item = n) (items st)))
           + sum_list (map price (filter (\<lambda>item. assignedTo item = n) (items st))) / subtotal st
             * (taxAmount st + tipAmount st))"
proof -
  from assms(2) obtain p where "p \<in> set (people st)" and "n = person_name p" by auto
  with assms(1,3) show ?thesis
    using calculateOwed_entry [of st p]
    by (simp add: personTaxTipShare_def personSubtotal_sum_list)
qed

text \<open>
  In exact arithmetic, and when no participant is named \<^verbatim>\<open>__proto__\<close>, the values of the
  owed map add up to the total if every item is assigned to the name of a participant and
  the prices and percentages are numbers.
\<close>

lemma owed_sum_other_names:
  assumes assigned: "\<forall>item\<in>set (items st). \<exists>p\<in>set (people st). assignedTo item = person_name p"
    and names: "\<forall>p\<in>set (people st). person_name p \<noteq> ''__proto__''"
    and prices: "\<forall>item\<in>set (items st). price item \<noteq> NaN"
    and tax: "percent (taxPercent st) \<noteq> NaN"
    and tip: "percent (tipPercent st) \<noteq> NaN"
  shows "sum_values (calculateOwed st) = total st"
proof -
  let ?names = "person_name ` set (people st)"
  let ?g = "\<lambda>n. sum_list (map price (filter (\<lambda>item. assignedTo item = n) (items st)))"
  from names have noproto: "?names - {''__proto__''} = ?names" by auto
  from prices obtain s where s: "subtotal st = Fin s"
    using sum_list_Fin [of "items st" price] by (auto simp: subtotal_sum_list)
  from tax obtain a where a: "percent (taxPercent st) = Fin a"
    by (cases "percent (taxPercent st)") auto
  from tip obtain b where b: "percent (tipPercent st) = Fin b"
    by (cases "percent (tipPercent st)") auto
  define t where "t = s * (a / 100) + (s + s * (a / 100)) * (b / 100)"
  have tt: "taxAmount st + tipAmount st = Fin t"
    by (simp add: taxAmount_def tipAmount_def s a b t_def)
  have tot: "total st = Fin (s + t)"
    by (simp add: total_def taxAmount_def tipAmount_def s a b t_def)
  have eq: "sum_values (calculateOwed st) = Fin (s + t)"
  proof (cases "s = 0")
    case True
    then have "calculateOwed st = Map.empty" by (simp add: calculateOwed_def s)
    with True show ?thesis by (simp add: sum_values_def t_def zero_number_def)
  next
    case False
    then have nz: "subtotal st \<noteq> Fin 0" by (simp add: s)
    have "sum_values (calculateOwed st) = (\<Sum>n\<in>?names. the (calculateOwed st n))"
      by (simp add: sum_values_def calculateOwed_dom [OF nz] noproto)
    also have "\<dots> = (\<Sum>n\<in>?names. ?g n + ?g n / Fin s * Fin t)"
    proof (rule sum.cong)
      fix n assume n: "n \<in> ?names"
      with names have "n \<noteq> ''__proto__''" by auto
      with n show "the (calculateOwed st n) = ?g n + ?g n / Fin s * Fin t"
        by (simp add: calculateOwed_by_name [OF nz] s tt)
    qed simp
    also have "\<dots> = (\<Sum>n\<in>?names. ?g n) + (\<Sum>n\<in>?names. ?g n / Fin s * Fin t)"
      by (rule sum.distrib)
    also have "(\<Sum>n\<in>?names. ?g n / Fin s * Fin t) = (\<Sum>n\<in>?names. ?g n) / Fin s * Fin t"
      using False by (intro sum_scale_number) simp_all
    also have "(\<Sum>n\<in>?names. ?g n) = sum_list (map price (items st))"
      using assigned by (intro sum_partition) auto
    also have "\<dots> = Fin s"
      using s by (simp add: subtotal_sum_list)
    finally show ?thesis using False by simp
  qed
  with tot show ?thesis by simp
qed

text \<open>
  C1. The claim asks for one entry per participant. A participant can be named
  \<^verbatim>\<open>__proto__\<close>: the name is added like any other. On the bill of Alice (coffee, 4) and
  \<^verbatim>\<open>__proto__\<close> (scone, 4) with tax 25 and tip 0, the subtotal is 8 and the subtotal of
  \<^verbatim>\<open>__proto__\<close> is 4, so the entry asked for is 4 + 4/8 * 2 = 5; but the owed map has no
  entry for that participant, and Alice's name is its only key.
\<close>

theorem computeOwed_proto_participant:
  "add ''400'' ''__proto__'' (proto_bill\<lparr>people := [alice]\<rparr>) = proto_bill \<and>
   subtotal proto_bill = Fin 8 \<and>
   taxAmount proto_bill + tipAmount proto_bill = Fin 2 \<and>
   personSubtotal proto_bill proto = Fin 4 \<and>
   calculateOwed proto_bill (person_name proto) = None \<and>
   calculateOwed proto_bill ''Alice'' = Some (Fin 5) \<and>
   dom (calculateOwed proto_bill) = {''Alice''}"
proof -
  have "subtotal proto_bill \<noteq> Fin 0"
    by (simp add: eval_defs proto_defs)
  from calculateOwed_dom [OF this] have "dom (calculateOwed proto_bill) = {''Alice''}"
    by (simp add: eval_defs proto_defs)
  moreover have "calculateOwed proto_bill (person_name proto) = None"
    using calculateOwed_proto [of proto_bill] by (simp add: proto_def)
  moreover have "add ''400'' ''__proto__'' (proto_bill\<lparr>people := [alice]\<rparr>) = proto_bill"
    by (simp add: add_def handleAddPerson_def setNewPersonName_def trim_def is_space_def
        eval_defs proto_defs)
  ultimately show ?thesis
    by (simp add: eval_defs proto_defs set_property_def)
qed

text \<open>
  C2. On the same bill every item is assigned to the name of a participant, the prices and
  percentages are numbers, and every operation is exact in binary floating point as well
  (25/100, 8 * 0.25, 4/8 and 0.5 * 2); the values of the owed map add up to 5 and the total is
  10, which is not within 1e-6 relative.
\<close>

theorem owed_sum_proto_participant:
  "map assignedTo (items proto_bill) = [''Alice'', ''__proto__''] \<and>
   map person_name (people proto_bill) = [''Alice'', ''__proto__''] \<and>
   sum_values (calculateOwed proto_bill) = Fin 5 \<and>
   total proto_bill = Fin 10 \<and>
   \<not> within_tolerance (sum_values (calculateOwed proto_bill)) (total proto_bill)"
proof -
  have nz: "subtotal proto_bill \<noteq> Fin 0"
    by (simp add: eval_defs proto_defs)
  have "dom (calculateOwed proto_bill) = {''Alice''}"
    using calculateOwed_dom [OF nz] by (simp add: eval_defs proto_defs)
  then have "sum_values (calculateOwed proto_bill) = the (calculateOwed proto_bill ''Alice'')"
    by (simp add: sum_values_def)
  also have "\<dots> = Fin 5"
    by (simp add: eval_defs proto_defs set_property_def)
  finally have sum: "sum_values (calculateOwed proto_bill) = Fin 5" .
  have "total proto_bill = Fin 10"
    by (simp add: eval_defs proto_defs)
  with sum show ?thesis
    by (simp add: eval_defs proto_defs)
qed

text \<open>
  C4. In a bill with a positive subtotal and no participant with an empty name, an item whose
  \<open>assignedTo\<close> is empty adds its price to the subtotal, and the tax and tip it carries to
  tax plus tip, but every participant's subtotal is what it is without the item. Where the
  owed map has an entry for a participant it is built from that subtotal, and it has one for
  every participant not named \<^verbatim>\<open>__proto__\<close>.
\<close>

theorem unassigned_item:
  assumes "items st = xs @ unclaimed # ys"
    and "assignedTo unclaimed = []"
    and "\<forall>p\<in>set (people st). person_name p \<noteq> []"
    and "subtotal st = Fin s" and "0 < s"
  shows "subtotal st = subtotal (st\<lparr>items := xs @ ys\<rparr>) + price unclaimed \<and>
         taxAmount st + tipAmount st =
           (taxAmount (st\<lparr>items := xs @ ys\<rparr>) + tipAmount (st\<lparr>items := xs @ ys\<rparr>))
           + (taxAmount (st\<lparr>items := [unclaimed]\<rparr>) + tipAmount (st\<lparr>items := [unclaimed]\<rparr>)) \<and>
         (\<forall>p\<in>set (people st).
            personSubtotal st p = personSubtotal (st\<lparr>items := xs @ ys\<rparr>) p \<and>
            (\<forall>v. calculateOwed st (person_name p) = Some v \<longrightarrow>
               v = personSubtotal (st\<lparr>items := xs @ ys\<rparr>) p
                   + personSubtotal (st\<lparr>items := xs @ ys\<rparr>) p / subtotal st
                     * (taxAmount st + tipAmount st)) \<and>
            (person_name p \<noteq> ''__proto__'' \<longrightarrow>
               calculateOwed st (person_name p) =
                 Some (personSubtotal (st\<lparr>items := xs @ ys\<rparr>) p
                       + personSubtotal (st\<lparr>items := xs @ ys\<rparr>) p / subtotal st
                         * (taxAmount st + tipAmount st))))"
proof (intro conjI ballI allI impI)
  show sub: "subtotal st = subtotal (st\<lparr>items := xs @ ys\<rparr>) + price unclaimed"
    by (simp add: subtotal_sum_list assms(1) ac_simps)
  show "taxAmount st + tipAmount st =
           (taxAmount (st\<lparr>items := xs @ ys\<rparr>) + tipAmount (st\<lparr>items := xs @ ys\<rparr>))
           + (taxAmount (st\<lparr>items := [unclaimed]\<rparr>) + tipAmount (st\<lparr>items := [unclaimed]\<rparr>))"
    by (simp add: taxAmount_def tipAmount_def subtotal_sum_list assms(1) distrib_number distrib_left_number ac_simps)
next
  fix p assume p: "p \<in> set (people st)"
  with assms(3) have "person_name p \<noteq> []" by simp
  with assms(2) show ps: "personSubtotal st p = personSubtotal (st\<lparr>items := xs @ ys\<rparr>) p"
    by (auto simp: personSubtotal_sum_list assms(1))
  from assms(4,5) have nz: "subtotal st \<noteq> Fin 0" by simp
  {
    fix v assume "calculateOwed st (person_name p) = Some v"
    from calculateOwed_SomeD [OF this p]
    show "v = personSubtotal (st\<lparr>items := xs @ ys\<rparr>) p
                   + personSubtotal (st\<lparr>items := xs @ ys\<rparr>) p / subtotal st
                     * (taxAmount st + tipAmount st)"
      by (simp add: personTaxTipShare_def flip: ps)
  }
  {
    assume "person_name p \<noteq> ''__proto__''"
    with nz p show "calculateOwed st (person_name p) =
                 Some (personSubtotal (st\<lparr>items := xs @ ys\<rparr>) p
                       + personSubtotal (st\<lparr>items := xs @ ys\<rparr>) p / subtotal st
                         * (taxAmount st + tipAmount st))"
      using calculateOwed_entry [of st p] by (simp add: personTaxTipShare_def flip: ps)
  }
qed

theorem unassigned_item_witness:
  "subtotal unclaimed_bill = Fin 12 \<and>
   subtotal (unclaimed_bill\<lparr>items := [coffee, tea]\<rparr>) = Fin 9 \<and>
   personSubtotal unclaimed_bill alice = Fin 4 \<and>
   personSubtotal unclaimed_bill bob = Fin 5 \<and>
   taxAmount unclaimed_bill + tipAmount unclaimed_bill = Fin (96 / 25) \<and>
   calculateOwed unclaimed_bill ''Alice'' = Some (Fin (132 / 25)) \<and>
   calculateOwed unclaimed_bill ''Bob'' = Some (Fin (33 / 5))"
  using unassigned_item [of unclaimed_bill "[coffee]" "muffin\<lparr>assignedTo := []\<rparr>" "[tea]" 12]
  by (simp add: eval_defs unclaimed_bill_def tea_def set_property_def)

section \<open>Removing a participant\<close>

lemma find_distinct_key:
  "x \<in> set xs \<Longrightarrow> distinct (map k xs) \<Longrightarrow> find (\<lambda>y. k y = k x) xs = Some x"
  by (induction xs) auto

lemma filter_distinct_key:
  assumes "x \<in> set xs" and "distinct (map k xs)"
  shows "filter (\<lambda>y. k y \<noteq> k x) xs = filter (\<lambda>y. y \<noteq> x) xs"
proof (rule filter_cong)
  fix y assume "y \<in> set xs"
  with assms show "(k y \<noteq> k x) = (y \<noteq> x)"
    by (auto simp: distinct_map dest: inj_onD)
qed simp

text \<open>
  C6. In a state whose participants have distinct ids, removing a participant of the registry
  by their id clears \<open>assignedTo\<close> on every item assigned to their name, clears the payer if
  it was their name, and takes them, and nobody else, out of the registry. The items keep
  their number and order, no other field of an item changes, and no other cell of the state
  changes.
\<close>

theorem remove_participant:
  assumes "p \<in> set (people st)" and "distinct (map person_id (people st))"
  shows "handleRemovePerson (person_id p) st =
           st\<lparr>items := map (\<lambda>item. if assignedTo item = person_name p
                                     then item\<lparr>assignedTo := []\<rparr> else item) (items st),
              people := filter (\<lambda>q. q \<noteq> p) (people st),
              paidBy := (if paidBy st = person_name p then [] else paidBy st)\<rparr> \<and>
         length (items (handleRemovePerson (person_id p) st)) = length (items st) \<and>
         (\<forall>k < length (items st).
            item_id (items (handleRemovePerson (person_id p) st) ! k) = item_id (items st ! k) \<and>
            quantity (items (handleRemovePerson (person_id p) st) ! k) = quantity (items st ! k) \<and>
            item_name (items (handleRemovePerson (person_id p) st) ! k) = item_name (items st ! k) \<and>
            price (items (handleRemovePerson (person_id p) st) ! k) = price (items st ! k) \<and>
            assignedTo (items (handleRemovePerson (person_id p) st) ! k) =
              (if assignedTo (items st ! k) = person_name p then [] else assignedTo (items st ! k))) \<and>
         p \<notin> set (people (handleRemovePerson (person_id p) st)) \<and>
         set (people (handleRemovePerson (person_id p) st)) = set (people st) - {p} \<and>
         paidBy (handleRemovePerson (person_id p) st) =
           (if paidBy st = person_name p then [] else paidBy st)"
proof -
  have eq: "handleRemovePerson (person_id p) st =
           st\<lparr>items := map (\<lambda>item. if assignedTo item = person_name p
                                     then item\<lparr>assignedTo := []\<rparr> else item) (items st),
              people := filter (\<lambda>q. q \<noteq> p) (people st),
              paidBy := (if paidBy st = person_name p then [] else paidBy st)\<rparr>"
    using assms
    by (simp add: handleRemovePerson_def find_distinct_key filter_distinct_key)
  show ?thesis
    unfolding eq by auto
qed

theorem remove_participant_witness:
  "handleRemovePerson ''100'' example_bill =
     example_bill\<lparr>items := [coffee\<lparr>assignedTo := []\<rparr>, muffin\<lparr>assignedTo := []\<rparr>],
                   people := [bob], paidBy := ''Bob''\<rparr> \<and>
   handleRemovePerson ''200'' unclaimed_bill =
     unclaimed_bill\<lparr>items := [coffee, muffin\<lparr>assignedTo := []\<rparr>, tea\<lparr>assignedTo := []\<rparr>],
                   people := [alice], paidBy := []\<rparr>"
  using remove_participant [of alice example_bill]
        remove_participant [of bob unclaimed_bill]
  by (simp add: eval_defs unclaimed_bill_def tea_def)

section \<open>Adding a participant\<close>

lemma trim_empty_iff: "trim s = [] \<longleftrightarrow> (\<forall>c\<in>set s. is_space c)"
proof
  define d where "d = dropWhile is_space s"
  assume "trim s = []"
  then have all: "\<forall>c\<in>set d. is_space c"
    by (simp add: trim_def d_def [symmetric] dropWhile_eq_Nil_conv)
  have "d = []"
  proof (rule ccontr)
    assume ne: "d \<noteq> []"
    then have "\<not> is_space (hd d)" unfolding d_def by (rule hd_dropWhile)
    with ne all show False by auto
  qed
  then show "\<forall>c\<in>set s. is_space c"
    by (simp add: d_def dropWhile_eq_Nil_conv)
next
  assume "\<forall>c\<in>set s. is_space c"
  then show "trim s = []" by (auto simp: trim_def dest: set_dropWhileD)
qed

lemma trim_decompose:
  "\<exists>pre suf. s = pre @ trim s @ suf \<and> (\<forall>c\<in>set pre. is_space c) \<and> (\<forall>c\<in>set suf. is_space c)"
proof (intro exI conjI)
  let ?d = "dropWhile is_space s"
  have "rev ?d = takeWhile is_space (rev ?d) @ dropWhile is_space (rev ?d)" by simp
  then have "?d = rev (dropWhile is_space (rev ?d)) @ rev (takeWhile is_space (rev ?d))"
    by (metis rev_append rev_rev_ident)
  then show "s = takeWhile is_space s @ trim s @ rev (takeWhile is_space (rev ?d))"
    by (metis takeWhile_dropWhile_id trim_def)
  show "\<forall>c\<in>set (takeWhile is_space s). is_space c"
    by (auto dest: set_takeWhileD)
  show "\<forall>c\<in>set (rev (takeWhile is_space (rev ?d))). is_space c"
    by (auto dest: set_takeWhileD)
qed

lemma trim_ends:
  assumes "trim s \<noteq> []"
  shows "\<not> is_space (hd (trim s)) \<and> \<not> is_space (last (trim s))"
proof
  define d where "d = dropWhile is_space s"
  define e where "e = dropWhile is_space (rev d)"
  have tr: "trim s = rev e" by (simp add: trim_def d_def e_def)
  with assms have e: "e \<noteq> []" by simp
  then have "\<not> is_space (hd e)" unfolding e_def by (rule hd_dropWhile)
  with e show "\<not> is_space (last (trim s))" by (simp add: tr last_rev)
  have "rev d = takeWhile is_space (rev d) @ e" by (simp add: e_def)
  then have split: "d = rev e @ rev (takeWhile is_space (rev d))"
    by (metis rev_append rev_rev_ident)
  with e have d: "d \<noteq> []" by auto
  then have "\<not> is_space (hd d)" unfolding d_def by (rule hd_dropWhile)
  moreover from split e have "hd d = hd (rev e)" by (metis hd_append2 rev_is_Nil_conv)
  ultimately show "\<not> is_space (hd (trim s))" by (simp add: tr)
qed

text \<open>
  C7, as amended. Adding a name that is empty or all white space leaves the registry as it
  is (the text stays in the input). Any other name appends one participant, with the given id
  and the name stripped of the white space around it, and empties the input; whether the name
  is already in the registry is not looked at. The stripped name is the input without a prefix
  and a suffix of white space, and neither starts nor ends with white space.
\<close>

theorem add_participant:
  "((\<forall>c\<in>set nm. is_space c) \<longrightarrow> add now nm st = st\<lparr>newPersonName := nm\<rparr>) \<and>
   (\<not> (\<forall>c\<in>set nm. is_space c) \<longrightarrow>
      add now nm st = st\<lparr>people := people st @ [\<lparr>person_id = now, person_name = trim nm\<rparr>],
                         newPersonName := []\<rparr> \<and>
      trim nm \<noteq> [] \<and> \<not> is_space (hd (trim nm)) \<and> \<not> is_space (last (trim nm))) \<and>
   (\<exists>pre suf. nm = pre @ trim nm @ suf \<and> (\<forall>c\<in>set pre. is_space c) \<and> (\<forall>c\<in>set suf. is_space c))"
proof (intro conjI impI)
  assume "\<forall>c\<in>set nm. is_space c"
  then have "trim nm = []" by (simp add: trim_empty_iff)
  then show "add now nm st = st\<lparr>newPersonName := nm\<rparr>"
    by (simp add: add_def handleAddPerson_def setNewPersonName_def)
next
  assume "\<not> (\<forall>c\<in>set nm. is_space c)"
  then show ne: "trim nm \<noteq> []" by (simp add: trim_empty_iff)
  then show "add now nm st = st\<lparr>people := people st @ [\<lparr>person_id = now, person_name = trim nm\<rparr>],
                         newPersonName := []\<rparr>"
    by (simp add: add_def handleAddPerson_def setNewPersonName_def)
  from ne show "\<not> is_space (hd (trim nm))" "\<not> is_space (last (trim nm))"
    using trim_ends [of nm] by simp_all
next
  show "\<exists>pre suf. nm = pre @ trim nm @ suf \<and> (\<forall>c\<in>set pre. is_space c) \<and> (\<forall>c\<in>set suf. is_space c)"
    by (rule trim_decompose)
qed

theorem add_participant_witness:
  "add ''1'' ''  '' initial_state = initial_state\<lparr>newPersonName := ''  ''\<rparr> \<and>
   add ''1'' [] initial_state = initial_state \<and>
   people (add ''1'' '' Al  '' initial_state) = [\<lparr>person_id = ''1'', person_name = ''Al''\<rparr>] \<and>
   people (add ''2'' ''Al'' (add ''1'' '' Al  '' initial_state)) =
     [\<lparr>person_id = ''1'', person_name = ''Al''\<rparr>, \<lparr>person_id = ''2'', person_name = ''Al''\<rparr>]"
  using add_participant [of "''  ''" "''1''" initial_state]
        add_participant [of "'' Al  ''" "''1''" initial_state]
        add_participant [of "''Al''" "''2''" "add ''1'' '' Al  '' initial_state"]
  by (simp add: add_def handleAddPerson_def setNewPersonName_def trim_def is_space_def initial_state_def)

text \<open>
  C7 as stated fails: the name of a participant already present is accepted again, and the
  registry then holds two participants of that name.
\<close>

theorem duplicate_name_counterexample:
  "\<not> distinct (map person_name (people (add ''2'' ''Al'' (add ''1'' ''Al'' initial_state))))"
  by (simp add: add_def handleAddPerson_def setNewPersonName_def trim_def is_space_def initial_state_def)

section \<open>Editing a price\<close>

lemma foldl_digits_nonneg:
  "0 \<le> a \<Longrightarrow> 0 \<le> foldl (\<lambda>acc c. 10 * acc + digit_val c) a ds"
  by (induction ds arbitrary: a) (simp_all add: digit_val_def)

lemma digits_val_nonneg: "0 \<le> digits_val ds"
  by (simp add: digits_val_def foldl_digits_nonneg)

lemma decimal_nonneg: "0 \<le> digits_val ip + digits_val fp / 10 ^ n"
  by (simp add: digits_val_nonneg)

lemma parseFloat_not_negative: "\<not> negative (parseFloat s)"
  by (simp add: parseFloat_def Let_def decimal_nonneg not_less)

lemma point_not_digit: "\<not> is_digit (CHR ''.'')"
  by (simp add: is_digit_def)

lemma numeric_pattern_iff:
  "numeric_pattern val \<longleftrightarrow>
     (\<forall>c\<in>set val. is_digit c \<or> c = CHR ''.'') \<and> count_list val (CHR ''.'') \<le> 1"
proof -
  define ds where "ds = takeWhile is_digit val"
  define rest where "rest = dropWhile is_digit val"
  have np: "numeric_pattern val =
      list_all is_digit (case rest of [] \<Rightarrow> [] | c # r \<Rightarrow> if c = CHR ''.'' then r else rest)"
    unfolding numeric_pattern_def rest_def Let_def ..
  have "val = ds @ rest" by (simp add: ds_def rest_def)
  then have chars: "set val = set ds \<union> set rest"
    and count: "count_list val (CHR ''.'') = count_list ds (CHR ''.'') + count_list rest (CHR ''.'')"
    by (metis set_append, metis count_list_append)
  have ds: "\<forall>c\<in>set ds. is_digit c" by (auto simp: ds_def dest: set_takeWhileD)
  then have cnt: "count_list ds (CHR ''.'') = 0"
    using point_not_digit by (auto simp: count_list_0_iff)
  show ?thesis
  proof (cases rest)
    case Nil
    with ds cnt show ?thesis
      by (simp add: np chars count)
  next
    case (Cons c r)
    have nd: "\<not> is_digit c"
      using hd_dropWhile [of is_digit val] Cons by (simp add: rest_def [symmetric])
    show ?thesis
    proof (cases "c = CHR ''.''")
      case True
      have "list_all is_digit r \<longleftrightarrow>
          (\<forall>c\<in>set r. is_digit c \<or> c = CHR ''.'') \<and> count_list r (CHR ''.'') = 0"
        using point_not_digit by (auto simp: list_all_iff count_list_0_iff)
      with True Cons ds cnt show ?thesis
        by (auto simp add: np chars count)
    next
      case False
      with nd Cons ds show ?thesis
        by (auto simp: np chars count)
    qed
  qed
qed

text \<open>
  C10. An input to the price field that is not empty and does not match the pattern (only
  digits and points, at most one point) leaves the whole state as it is. The empty input sets
  the price of the item to 0. Whatever the input, the state is unchanged or the price written
  is not negative.
\<close>

theorem price_commit:
  "(\<not> numeric_pattern val \<longrightarrow> price_onChange item val st = st) \<and>
   price_onChange item [] st =
     st\<lparr>items := map (\<lambda>i. if item_id i = item_id item then i\<lparr>price := Fin 0\<rparr> else i) (items st)\<rparr> \<and>
   (price_onChange item val st = st \<or>
    (\<exists>p. \<not> negative p \<and>
       price_onChange item val st =
         st\<lparr>items := map (\<lambda>i. if item_id i = item_id item then i\<lparr>price := p\<rparr> else i) (items st)\<rparr>)) \<and>
   (numeric_pattern val \<longleftrightarrow>
      (\<forall>c\<in>set val. is_digit c \<or> c = CHR ''.'') \<and> count_list val (CHR ''.'') \<le> 1)"
proof (intro conjI impI)
  assume "\<not> numeric_pattern val"
  moreover from this have "val \<noteq> []" by (auto simp: numeric_pattern_def)
  ultimately show "price_onChange item val st = st" by (simp add: price_onChange_def)
next
  show "price_onChange item [] st =
     st\<lparr>items := map (\<lambda>i. if item_id i = item_id item then i\<lparr>price := Fin 0\<rparr> else i) (items st)\<rparr>"
    by (simp add: price_onChange_def)
next
  show "price_onChange item val st = st \<or>
    (\<exists>p. \<not> negative p \<and>
       price_onChange item val st =
         st\<lparr>items := map (\<lambda>i. if item_id i = item_id item then i\<lparr>price := p\<rparr> else i) (items st)\<rparr>)"
  proof (cases "val = [] \<or> numeric_pattern val")
    case True
    define p where "p = (if val = [] then Fin 0 else parseFloat val)"
    have "\<not> negative p" by (simp add: p_def parseFloat_not_negative)
    moreover from True have "price_onChange item val st =
         st\<lparr>items := map (\<lambda>i. if item_id i = item_id item then i\<lparr>price := p\<rparr> else i) (items st)\<rparr>"
      by (simp add: price_onChange_def p_def)
    ultimately show ?thesis by blast
  next
    case False
    then show ?thesis by (simp add: price_onChange_def)
  qed
next
  show "numeric_pattern val \<longleftrightarrow>
      (\<forall>c\<in>set val. is_digit c \<or> c = CHR ''.'') \<and> count_list val (CHR ''.'') \<le> 1"
    by (rule numeric_pattern_iff)
qed

theorem price_commit_witness:
  "price_onChange coffee ''-1'' example_bill = example_bill \<and>
   price_onChange coffee ''4a'' example_bill = example_bill \<and>
   price_onChange coffee ''1.2.3'' example_bill = example_bill \<and>
   price_onChange coffee [] example_bill = example_bill\<lparr>items := [coffee\<lparr>price := Fin 0\<rparr>, muffin]\<rparr> \<and>
   price_onChange coffee ''4.5'' example_bill =
     example_bill\<lparr>items := [coffee\<lparr>price := Fin (9 / 2)\<rparr>, muffin]\<rparr> \<and>
   price_onChange coffee ''.'' example_bill = example_bill\<lparr>items := [coffee\<lparr>price := NaN\<rparr>, muffin]\<rparr>"
  using price_commit [of "''-1''" coffee example_bill] price_commit [of "''4a''" coffee example_bill]
    price_commit [of "''1.2.3''" coffee example_bill] price_commit [of "''4.5''" coffee example_bill]
  by (simp add: eval_defs price_onChange_def numeric_pattern_def)

section \<open>The payment summary\<close>







text \<open>
  Outside the amended claim: on a bill whose subtotal is 0, a participant named
  \<^verbatim>\<open>toString\<close> makes the summary throw.
\<close>

lemma paymentSummary_inherited_member:
  "paymentSummary (free_bill\<lparr>people := [alice, bob, \<lparr>person_id = ''500'', person_name = ''toString''\<rparr>]\<rparr>)
     = Inl TypeError"
  by (simp add: eval_defs free_bill_def paymentSummary_def summary_amount_def get_property_def
      object_prototype_members_def)

section \<open>Settlement\<close>

lemma settle_Cons:
  "fst (settle exec addr w (i # instrs)) =
     report addr i (fst (exec w i)) # fst (settle exec addr (snd (exec w i)) instrs)"
  "snd (settle exec addr w (i # instrs)) = snd (settle exec addr (snd (exec w i)) instrs)"
  by (simp_all add: case_prod_beta)

lemma settle_length: "length (fst (settle exec addr w instrs)) = length instrs"
  by (induction instrs arbitrary: w) (simp_all only: settle_Cons, simp_all)

lemma settle_nth:
  "k < length instrs \<Longrightarrow>
   fst (settle exec addr w instrs) ! k =
     report addr (instrs ! k) (fst (exec (snd (settle exec addr w (take k instrs))) (instrs ! k)))"
proof (induction instrs arbitrary: w k)
  case Nil
  then show ?case by simp
next
  case (Cons i instrs)
  show ?case
  proof (cases k)
    case 0
    then show ?thesis by (simp add: settle_Cons del: settle.simps(2))
  next
    case (Suc j)
    with Cons.prems have "j < length instrs" by simp
    from Cons.IH [OF this] Suc show ?thesis by (simp add: settle_Cons del: settle.simps(2))
  qed
qed

lemma report_fields:
  "tx_from (report addr i outcome) = instr_from i \<and> tx_to (report addr i outcome) = instr_to i \<and>
   amount (report addr i outcome) = instr_amount i \<and>
   (status (report addr i outcome) = ''success'') = (\<exists>r. outcome = Executed r) \<and>
   (status (report addr i outcome) = ''failed'') = (\<exists>e. outcome = NotExecuted e)"
  by (cases outcome) (simp_all add: report_def)

text \<open>
  C8. Settling N instructions gives N results. The k-th result is the report of what the
  executor answered on the k-th instruction, asked in the world left by the instructions
  before it, whether those failed or not: it has the sender, receiver and amount of that
  instruction, it is a success exactly when the executor executed it and a failure exactly
  when the executor did not.
\<close>

theorem settle_results:
  "length (fst (settle exec addr w instrs)) = length instrs \<and>
   (\<forall>k < length instrs.
      fst (settle exec addr w instrs) ! k =
        report addr (instrs ! k) (fst (exec (snd (settle exec addr w (take k instrs))) (instrs ! k))) \<and>
      tx_from (fst (settle exec addr w instrs) ! k) = instr_from (instrs ! k) \<and>
      tx_to (fst (settle exec addr w instrs) ! k) = instr_to (instrs ! k) \<and>
      amount (fst (settle exec addr w instrs) ! k) = instr_amount (instrs ! k) \<and>
      (status (fst (settle exec addr w instrs) ! k) = ''success'') =
        (\<exists>r. fst (exec (snd (settle exec addr w (take k instrs))) (instrs ! k)) = Executed r) \<and>
      (status (fst (settle exec addr w instrs) ! k) = ''failed'') =
        (\<exists>e. fst (exec (snd (settle exec addr w (take k instrs))) (instrs ! k)) = NotExecuted e))"
  by (simp add: settle_length settle_nth report_fields)

theorem settle_results_witness:
  "settle refuse_a (\<lambda>n. None) [] [pay_a, pay_b] =
     ([\<lparr>tx_from = ''A'', fromAddress = None, tx_to = ''Payer'', toAddress = None, amount = Fin 5,
        status = ''failed'', result = None, error = Some ''insufficient funds''\<rparr>,
       \<lparr>tx_from = ''B'', fromAddress = None, tx_to = ''Payer'', toAddress = None, amount = Fin (15 / 2),
        status = ''success'', result = None, error = None\<rparr>],
      [pay_a, pay_b])"
  using settle_results [of refuse_a "\<lambda>n. None" "[]" "[pay_a, pay_b]"]
  by (simp add: refuse_a_def pay_a_def pay_b_def report_def)

section \<open>Validation of negotiated amounts\<close>

text \<open>
  C9. The validation accepts the final amounts exactly when both are non-negative numbers and
  their sum is within the tolerance of the total, and then returns them as they are; in every
  other case it returns a \<open>ValidationError\<close>. The operation \<open>negotiate\<close> returns the
  collaborator's transcript and amounts, unchanged, exactly when those amounts pass the
  validation, and the \<open>ValidationError\<close> in every other case. For every tolerance from 0 to
  below 1.24, the amounts 6.00 and 3.24 pass against the total 9.24, and 6.00 and 2.00 do not.
\<close>

theorem final_amounts_validation:
  "validate_final_amounts tolerance t p1 p2 =
     (if \<exists>a b c. p1 = Fin a \<and> p2 = Fin b \<and> t = Fin c \<and> 0 \<le> a \<and> 0 \<le> b \<and> \<bar>a + b - c\<bar> \<le> tolerance
      then Inr (p1, p2) else Inl ValidationError) \<and>
   negotiate tolerance collaborator ctx t =
     (if \<exists>a b c. fst (snd (collaborator ctx)) = Fin a \<and> snd (snd (collaborator ctx)) = Fin b \<and>
           t = Fin c \<and> 0 \<le> a \<and> 0 \<le> b \<and> \<bar>a + b - c\<bar> \<le> tolerance
      then Inr (fst (collaborator ctx), snd (collaborator ctx), t) else Inl ValidationError) \<and>
   (0 \<le> tolerance \<and> tolerance < 31 / 25 \<longrightarrow>
      validate_final_amounts tolerance (Fin (231 / 25)) (Fin 6) (Fin (81 / 25)) = Inr (Fin 6, Fin (81 / 25)) \<and>
      validate_final_amounts tolerance (Fin (231 / 25)) (Fin 6) (Fin 2) = Inl ValidationError)"
proof -
  define ok where "ok q1 q2 \<longleftrightarrow>
    (\<exists>a b c. q1 = Fin a \<and> q2 = Fin b \<and> t = Fin c \<and> 0 \<le> a \<and> 0 \<le> b \<and> \<bar>a + b - c\<bar> \<le> tolerance)"
    for q1 q2
  have v: "validate_final_amounts tolerance t q1 q2 =
     (if ok q1 q2 then Inr (q1, q2) else Inl ValidationError)" for q1 q2
    unfolding ok_def by (cases t; cases q1; cases q2) simp_all
  have "negotiate tolerance collaborator ctx t =
     (if ok (fst (snd (collaborator ctx))) (snd (snd (collaborator ctx)))
      then Inr (fst (collaborator ctx), snd (collaborator ctx), t) else Inl ValidationError)"
    by (simp add: negotiate_def case_prod_beta v)
  moreover have "validate_final_amounts tolerance (Fin (231 / 25)) (Fin 6) (Fin (81 / 25)) = Inr (Fin 6, Fin (81 / 25)) \<and>
      validate_final_amounts tolerance (Fin (231 / 25)) (Fin 6) (Fin 2) = Inl ValidationError"
    if "0 \<le> tolerance \<and> tolerance < 31 / 25"
    using that by simp
  ultimately show ?thesis using v [of p1 p2] unfolding ok_def by blast
qed

theorem final_amounts_validation_witness:
  "validate_final_amounts (1 / 100) (Fin (231 / 25)) (Fin 6) (Fin (81 / 25)) = Inr (Fin 6, Fin (81 / 25)) \<and>
   validate_final_amounts (1 / 100) (Fin (231 / 25)) (Fin 6) (Fin 2) = Inl ValidationError \<and>
   validate_final_amounts (1 / 100) (Fin (231 / 25)) (Fin 10) (Fin (- (19 / 25))) = Inl ValidationError \<and>
   validate_final_amounts (1 / 100) (Fin (231 / 25)) NaN (Fin (81 / 25)) = Inl ValidationError \<and>
   negotiate (1 / 100) (\<lambda>c. ([(1, ''mine''), (2, ''fine'')], Fin 6, Fin (81 / 25))) () (Fin (231 / 25)) =
     Inr ([(1, ''mine''), (2, ''fine'')], (Fin 6, Fin (81 / 25)), Fin (231 / 25)) \<and>
   negotiate (1 / 100) (\<lambda>c. ([(1, ''mine''), (2, ''fine'')], Fin 6, Fin 2)) () (Fin (231 / 25)) =
     Inl ValidationError \<and>
   negotiate (1 / 100) (\<lambda>c. ([(1, ''mine''), (2, ''fine'')], Fin 10, Fin (- (19 / 25)))) () (Fin (231 / 25)) =
     Inl ValidationError"
  using final_amounts_validation [of "1 / 100" "Fin (231 / 25)" "Fin 6" "Fin (81 / 25)"]
    final_amounts_validation [of "1 / 100" "Fin (231 / 25)" "Fin 6" "Fin 2"]
  by (simp add: negotiate_def)

end
